theory Spec2Isabelle
  imports Complex_Main
begin

section \<open>Enumerations and tables of \<open>gpio_controller.py\<close>\<close>

text \<open>
  \<open>LightMode\<close> and \<open>LightColor\<close> are string-valued enums; the constructors keep the member
  names and the \<open>_value\<close> functions give the member's string.
\<close>

datatype LightMode =
  BREATHE_COLORS | COLOR_DURATION | TRACK_DIRECTION | CIRCULAR_PATTERN | WHITE_MODE | OFF

datatype LightColor = RED | GREEN | YELLOW

fun LightMode_value :: "LightMode \<Rightarrow> string" where
  "LightMode_value BREATHE_COLORS = ''breathe_colors''"
| "LightMode_value COLOR_DURATION = ''color_duration''"
| "LightMode_value TRACK_DIRECTION = ''track_direction''"
| "LightMode_value CIRCULAR_PATTERN = ''circular_pattern''"
| "LightMode_value WHITE_MODE = ''white_mode''"
| "LightMode_value OFF = ''off''"

fun LightColor_value :: "LightColor \<Rightarrow> string" where
  "LightColor_value RED = ''red''"
| "LightColor_value GREEN = ''green''"
| "LightColor_value YELLOW = ''yellow''"

definition PIN_SW1_RED :: int where "PIN_SW1_RED = 17"
definition PIN_SW2_GREEN :: int where "PIN_SW2_GREEN = 18"
definition PIN_SW3_YELLOW :: int where "PIN_SW3_YELLOW = 27"
definition PIN_SW4_MODE :: int where "PIN_SW4_MODE = 22"

fun MODE_PRESS_COUNT :: "LightMode \<Rightarrow> int" where
  "MODE_PRESS_COUNT BREATHE_COLORS = 1"
| "MODE_PRESS_COUNT COLOR_DURATION = 2"
| "MODE_PRESS_COUNT TRACK_DIRECTION = 3"
| "MODE_PRESS_COUNT CIRCULAR_PATTERN = 4"
| "MODE_PRESS_COUNT WHITE_MODE = 5"
| "MODE_PRESS_COUNT OFF = 6"

definition all_modes :: "LightMode list" where
  "all_modes =
     [BREATHE_COLORS, COLOR_DURATION, TRACK_DIRECTION, CIRCULAR_PATTERN, WHITE_MODE, OFF]"

text \<open>
  The reverse table \<open>{v: k for k, v in MODE_PRESS_COUNT.items()}\<close>. The press counts are
  pairwise distinct, so the first entry found by \<open>map_of\<close> is the only one.
\<close>

definition PRESS_COUNT_TO_MODE :: "int \<rightharpoonup> LightMode" where
  "PRESS_COUNT_TO_MODE = map_of (map (\<lambda>m. (MODE_PRESS_COUNT m, m)) all_modes)"

fun pin_map :: "LightColor \<Rightarrow> int" where
  "pin_map RED = PIN_SW1_RED"
| "pin_map GREEN = PIN_SW2_GREEN"
| "pin_map YELLOW = PIN_SW3_YELLOW"


section \<open>Python values, the state file and the environment\<close>

text \<open>
  The values \<open>json.load\<close> can produce, and the values of the result dictionaries. A
  dictionary is an association list read with \<open>map_of\<close>.
\<close>

datatype pyval =
    PyNone
  | PyBool bool
  | PyInt int
  | PyFloat real
  | PyStr string
  | PyList "pyval list"
  | PyDict "(string \<times> pyval) list"

type_synonym pydict = "(string \<times> pyval) list"

datatype error = KeyError | TypeError | JSONDecodeError | OSError

text \<open>
  A file on disk is described by what reading it gives: \<open>open\<close> fails (\<open>Unreadable\<close>),
  \<open>json.load\<close> rejects the text (\<open>NotJson\<close>), or \<open>json.load\<close> returns a value. The
  library pair \<open>json.dump\<close>/\<open>json.load\<close> is not part of the repository: a file written by
  \<open>json.dump v\<close> is taken to be read back as \<open>v\<close>.
\<close>

datatype file_content = Unreadable | NotJson | Json pyval

record filesystem =
  state_file :: "file_content option"
  temp_file :: "file_content option"

text \<open>
  What the outside world decides during one operation: where (if anywhere) the write of
  \<open>save_state\<close> fails, whether \<open>os.remove\<close> succeeds, and the two clock readings.
\<close>

datatype io_outcome = SaveOk | OpenFails | DumpFails | ReplaceFails

record env =
  save_io :: io_outcome
  remove_ok :: bool
  time_time :: real
  now_isoformat :: string


section \<open>\<open>state_manager.py\<close>\<close>

definition opt_str :: "string option \<Rightarrow> pyval" where
  "opt_str c = (case c of None \<Rightarrow> PyNone | Some s \<Rightarrow> PyStr s)"

text \<open>
  \<open>save_state\<close>: the data is written to the temporary file, which then replaces the state
  file; every exception ends in \<open>return False\<close>. When \<open>open\<close> fails nothing is written, when
  \<open>json.dump\<close> fails the temporary file is left incomplete, when \<open>os.replace\<close> fails the
  temporary file is complete; in all three the state file is untouched.
\<close>

definition save_state :: "env \<Rightarrow> int \<Rightarrow> string option \<Rightarrow> filesystem \<Rightarrow> bool \<times> filesystem" where
  "save_state e mode_count color fs =
     (let state_data = PyDict
            [(''current_mode_press_count'', PyInt mode_count),
             (''last_color_pressed'', opt_str color),
             (''last_updated'', PyStr (now_isoformat e))]
      in case save_io e of
           OpenFails \<Rightarrow> (False, fs)
         | DumpFails \<Rightarrow> (False, fs\<lparr>temp_file := Some NotJson\<rparr>)
         | ReplaceFails \<Rightarrow> (False, fs\<lparr>temp_file := Some (Json state_data)\<rparr>)
         | SaveOk \<Rightarrow> (True, fs\<lparr>temp_file := None, state_file := Some (Json state_data)\<rparr>))"

definition default_state :: pydict where
  "default_state = [(''current_mode_press_count'', PyInt 0), (''last_color_pressed'', PyNone)]"

fun str_contains :: "string \<Rightarrow> string \<Rightarrow> bool" where
  "str_contains [] sub = (sub = [])"
| "str_contains (c # cs) sub = (take (length sub) (c # cs) = sub \<or> str_contains cs sub)"

text \<open>Python's \<open>key in obj\<close> for a string key.\<close>

fun py_contains :: "pyval \<Rightarrow> string \<Rightarrow> error + bool" where
  "py_contains (PyDict d) k = Inr (map_of d k \<noteq> None)"
| "py_contains (PyList xs) k = Inr (PyStr k \<in> set xs)"
| "py_contains (PyStr s) k = Inr (str_contains s k)"
| "py_contains _ k = Inl TypeError"

text \<open>Python's \<open>obj[key]\<close> for a string key.\<close>

fun py_getitem :: "pyval \<Rightarrow> string \<Rightarrow> error + pyval" where
  "py_getitem (PyDict d) k = (case map_of d k of None \<Rightarrow> Inl KeyError | Some v \<Rightarrow> Inr v)"
| "py_getitem _ k = Inl TypeError"

text \<open>Python's \<open>obj.get(key)\<close>; only a dictionary reaches it in \<open>load_state\<close>.\<close>

fun py_get :: "pyval \<Rightarrow> string \<Rightarrow> error + pyval" where
  "py_get (PyDict d) k = (case map_of d k of None \<Rightarrow> Inr PyNone | Some v \<Rightarrow> Inr v)"
| "py_get _ k = Inl TypeError"

text \<open>
  \<open>isinstance(v, int)\<close> with the integer it denotes: \<open>bool\<close> is a subclass of \<open>int\<close> in
  Python, with \<open>True == 1\<close> and \<open>False == 0\<close>.
\<close>

fun as_int_instance :: "pyval \<Rightarrow> int option" where
  "as_int_instance (PyInt n) = Some n"
| "as_int_instance (PyBool b) = Some (if b then 1 else 0)"
| "as_int_instance _ = None"

text \<open>The body of the \<open>try\<close> block of \<open>load_state\<close>, after the file has been found.\<close>

definition load_state_try :: "file_content \<Rightarrow> error + pydict" where
  "load_state_try f =
     (case f of
        Unreadable \<Rightarrow> Inl OSError
      | NotJson \<Rightarrow> Inl JSONDecodeError
      | Json state_data \<Rightarrow>
          (case py_contains state_data ''current_mode_press_count'' of
             Inl e \<Rightarrow> Inl e
           | Inr False \<Rightarrow> Inr default_state
           | Inr True \<Rightarrow>
               (case py_getitem state_data ''current_mode_press_count'' of
                  Inl e \<Rightarrow> Inl e
                | Inr mode_count \<Rightarrow>
                    (case as_int_instance mode_count of
                       None \<Rightarrow> Inr default_state
                     | Some n \<Rightarrow>
                         if n < 0 \<or> n > 6 then Inr default_state
                         else (case py_get state_data ''last_color_pressed'' of
                                 Inl e \<Rightarrow> Inl e
                               | Inr c \<Rightarrow>
                                   Inr [(''current_mode_press_count'', mode_count),
                                        (''last_color_pressed'', c)])))))"

text \<open>\<open>load_state\<close>: both \<open>except\<close> clauses return the defaults.\<close>

definition load_state :: "filesystem \<Rightarrow> pydict" where
  "load_state fs =
     (case state_file fs of
        None \<Rightarrow> default_state
      | Some f \<Rightarrow> (case load_state_try f of Inl e \<Rightarrow> default_state | Inr d \<Rightarrow> d))"

definition clear_state :: "env \<Rightarrow> filesystem \<Rightarrow> bool \<times> filesystem" where
  "clear_state e fs =
     (if state_file fs \<noteq> None
      then (if remove_ok e then (True, fs\<lparr>state_file := None\<rparr>) else (False, fs))
      else (True, fs))"


section \<open>\<open>GPIOController\<close>\<close>

text \<open>
  The controller's fields, the disk its state manager writes to, and the log of the pins
  pulsed by \<open>_simulate_button_press\<close> (the sleeps are not modelled).
\<close>

record GPIOController =
  current_mode_press_count :: int
  last_color_pressed :: "LightColor option"
  disk :: filesystem
  pulses :: "int list"

definition simulate_button_press :: "int \<Rightarrow> GPIOController \<Rightarrow> GPIOController" where
  "simulate_button_press pin s = s\<lparr>pulses := pulses s @ [pin]\<rparr>"

definition press_color_switch :: "env \<Rightarrow> LightColor \<Rightarrow> GPIOController \<Rightarrow> pydict \<times> GPIOController" where
  "press_color_switch e color s =
     (let pin = pin_map color;
          s1 = simulate_button_press pin s;
          s2 = s1\<lparr>last_color_pressed := Some color\<rparr>;
          s3 = s2\<lparr>current_mode_press_count := 0\<rparr>;
          s4 = s3\<lparr>disk := snd (save_state e (current_mode_press_count s3)
                                 (map_option LightColor_value (last_color_pressed s3)) (disk s3))\<rparr>
      in ([(''action'', PyStr ''color_switch_pressed''),
           (''color'', PyStr (LightColor_value color)),
           (''gpio_pin'', PyInt pin),
           (''timestamp'', PyFloat (time_time e))], s4))"

text \<open>One iteration of the loop of \<open>press_mode_switch\<close>.\<close>

definition press_once :: "GPIOController \<Rightarrow> GPIOController" where
  "press_once s =
     (let s1 = simulate_button_press PIN_SW4_MODE s
      in s1\<lparr>current_mode_press_count := (current_mode_press_count s1 mod 6) + 1\<rparr>)"

text \<open>\<open>for i in range(count)\<close>: \<open>press_loop (nat count)\<close>, empty when \<open>count \<le> 0\<close>.\<close>

primrec press_loop :: "nat \<Rightarrow> GPIOController \<Rightarrow> GPIOController" where
  "press_loop 0 s = s"
| "press_loop (Suc n) s = press_loop n (press_once s)"

definition press_mode_switch :: "env \<Rightarrow> int \<Rightarrow> GPIOController \<Rightarrow> (error + pydict) \<times> GPIOController" where
  "press_mode_switch e count s =
     (let s1 = press_loop (nat count) s
      in case PRESS_COUNT_TO_MODE (current_mode_press_count s1) of
           None \<Rightarrow> (Inl KeyError, s1)
         | Some current_mode \<Rightarrow>
             (let s2 = s1\<lparr>disk := snd (save_state e (current_mode_press_count s1)
                                    (map_option LightColor_value (last_color_pressed s1)) (disk s1))\<rparr>
              in (Inr [(''action'', PyStr ''mode_switch_pressed''),
                       (''press_count'', PyInt count),
                       (''total_mode_presses'', PyInt (current_mode_press_count s2)),
                       (''current_mode'', PyStr (LightMode_value current_mode)),
                       (''gpio_pin'', PyInt PIN_SW4_MODE),
                       (''timestamp'', PyFloat (time_time e))], s2)))"

text \<open>The four-branch computation of \<open>presses_needed\<close> in \<open>set_mode\<close>.\<close>

definition presses_needed :: "int \<Rightarrow> int \<Rightarrow> int" where
  "presses_needed current_count target_count =
     (if current_count = 0 then target_count
      else if target_count = current_count then 0
      else if target_count > current_count then target_count - current_count
      else (6 - current_count) + target_count)"

definition set_mode :: "env \<Rightarrow> LightMode \<Rightarrow> GPIOController \<Rightarrow> (error + pydict) \<times> GPIOController" where
  "set_mode e target_mode s =
     (let target_count = MODE_PRESS_COUNT target_mode;
          current_count = current_mode_press_count s;
          n = presses_needed current_count target_count
      in if n > 0 then press_mode_switch e n s
         else (Inr [(''action'', PyStr ''mode_already_set''),
                    (''current_mode'', PyStr (LightMode_value target_mode)),
                    (''total_mode_presses'', PyInt (current_mode_press_count s)),
                    (''timestamp'', PyFloat (time_time e))], s))"

definition reset_message :: string where
  "reset_message =
     ''System reset successfully. Lights are off and ready to start from beginning.''"

definition reset :: "env \<Rightarrow> GPIOController \<Rightarrow> (error + pydict) \<times> GPIOController" where
  "reset e s =
     (case set_mode e OFF s of
        (Inl err, s1) \<Rightarrow> (Inl err, s1)
      | (Inr result, s1) \<Rightarrow>
          (let s2 = s1\<lparr>current_mode_press_count := 0\<rparr>;
               s3 = s2\<lparr>last_color_pressed := None\<rparr>;
               s4 = s3\<lparr>disk := snd (clear_state e (disk s3))\<rparr>
           in (Inr [(''action'', PyStr ''system_reset''),
                    (''lights_off'', PyBool True),
                    (''state_cleared'', PyBool True),
                    (''current_mode_press_count'', PyInt (current_mode_press_count s4)),
                    (''timestamp'', PyFloat (time_time e)),
                    (''message'', PyStr reset_message)], s4)))"


section \<open>Concrete inputs\<close>

text \<open>
  A disk with no files, an environment in which every write succeeds, one in which the
  replacement of the state file and its removal fail, and a controller at a given position:
  the inputs at which the theorems below are instantiated.
\<close>

definition idle_disk :: filesystem where
  "idle_disk = \<lparr>state_file = None, temp_file = None\<rparr>"

definition ok_env :: env where
  "ok_env = \<lparr>save_io = SaveOk, remove_ok = True, time_time = 0,
             now_isoformat = ''2024-01-01T00:00:00''\<rparr>"

definition failing_env :: env where
  "failing_env = \<lparr>save_io = ReplaceFails, remove_ok = False, time_time = 0,
                  now_isoformat = ''2024-01-01T00:00:00''\<rparr>"

definition controller_at :: "int \<Rightarrow> GPIOController" where
  "controller_at p =
     \<lparr>current_mode_press_count = p, last_color_pressed = None, disk = idle_disk, pulses = []\<rparr>"


section \<open>The press loop and the mode tables\<close>

lemma press_once_count:
  "current_mode_press_count (press_once s) = current_mode_press_count s mod 6 + 1"
  by (simp add: press_once_def simulate_button_press_def)

lemma step_mod: "((p::int) mod 6 + 1 + n) mod 6 = (p + (n + 1)) mod 6"
proof -
  have "(p mod 6 + (1 + n)) mod 6 = (p + (1 + n)) mod 6"
    by (rule mod_add_left_eq)
  then show ?thesis by (simp add: ac_simps)
qed

lemma press_loop_count:
  "current_mode_press_count (press_loop (Suc n) s)
     = (current_mode_press_count s + int n) mod 6 + 1"
proof (induction n arbitrary: s)
  case 0
  show ?case by (simp add: press_once_count)
next
  case (Suc n)
  have "current_mode_press_count (press_loop (Suc (Suc n)) s)
          = (current_mode_press_count (press_once s) + int n) mod 6 + 1"
    using Suc.IH [of "press_once s"] by simp
  also have "\<dots> = (current_mode_press_count s + int (Suc n)) mod 6 + 1"
    unfolding press_once_count using step_mod [of "current_mode_press_count s" "int n"] by (simp add: ac_simps)
  finally show ?case .
qed

lemma press_loop_pulses: "pulses (press_loop n s) = pulses s @ replicate n PIN_SW4_MODE"
  by (induction n arbitrary: s) (simp_all add: press_once_def simulate_button_press_def replicate_append_same)

lemma press_loop_last_color: "last_color_pressed (press_loop n s) = last_color_pressed s"
  by (induction n arbitrary: s) (simp_all add: press_once_def simulate_button_press_def)

lemma press_loop_disk: "disk (press_loop n s) = disk s"
  by (induction n arbitrary: s) (simp_all add: press_once_def simulate_button_press_def)

lemma PRESS_COUNT_TO_MODE_eq:
  "PRESS_COUNT_TO_MODE k =
     (if k = 1 then Some BREATHE_COLORS else if k = 2 then Some COLOR_DURATION
      else if k = 3 then Some TRACK_DIRECTION else if k = 4 then Some CIRCULAR_PATTERN
      else if k = 5 then Some WHITE_MODE else if k = 6 then Some OFF else None)"
  by (simp add: PRESS_COUNT_TO_MODE_def all_modes_def)

lemma dom_PRESS_COUNT_TO_MODE: "dom PRESS_COUNT_TO_MODE = {1..6}"
  by (auto simp: PRESS_COUNT_TO_MODE_eq dom_def split: if_splits)

lemma PRESS_COUNT_TO_MODE_MODE_PRESS_COUNT: "PRESS_COUNT_TO_MODE (MODE_PRESS_COUNT m) = Some m"
  by (cases m) (simp_all add: PRESS_COUNT_TO_MODE_eq)

lemma MODE_PRESS_COUNT_range: "1 \<le> MODE_PRESS_COUNT m \<and> MODE_PRESS_COUNT m \<le> 6"
  by (cases m) simp_all

lemma press_loop_count_pos:
  assumes "0 < n"
  shows "current_mode_press_count (press_loop (nat n) s)
           = (current_mode_press_count s + n - 1) mod 6 + 1"
proof -
  define k where "k = nat n - 1"
  from assms have k: "nat n = Suc k" "int k = n - 1"
    by (simp_all add: k_def)
  show ?thesis
    using press_loop_count [of k s] k by (simp add: algebra_simps)
qed

lemma press_loop_range:
  assumes "0 < n"
  shows "1 \<le> current_mode_press_count (press_loop (nat n) s)
         \<and> current_mode_press_count (press_loop (nat n) s) \<le> 6"
proof -
  have "0 \<le> (current_mode_press_count s + n - 1) mod 6"
    and "(current_mode_press_count s + n - 1) mod 6 < 6"
    by simp_all
  then show ?thesis
    unfolding press_loop_count_pos [OF assms] by linarith
qed

lemma mod6_id: "1 \<le> (t::int) \<Longrightarrow> t \<le> 6 \<Longrightarrow> (t - 1) mod 6 + 1 = t"
  by simp

lemma mod6_wrap: "1 \<le> (t::int) \<Longrightarrow> t \<le> 6 \<Longrightarrow> (t + 5) mod 6 + 1 = t"
proof -
  assume t: "1 \<le> t" "t \<le> 6"
  have "(t + 5) mod 6 = ((t - 1) + 6) mod 6" by (simp add: algebra_simps)
  also have "\<dots> = (t - 1) mod 6" by (rule mod_add_self2)
  finally show ?thesis using t by simp
qed

lemma presses_needed_bounds:
  assumes "1 \<le> c" "c \<le> 6" "1 \<le> t" "t \<le> 6"
  shows "0 \<le> presses_needed c t" "presses_needed c t \<le> 5"
  using assms by (simp_all add: presses_needed_def)

lemma presses_needed_lands:
  assumes "0 \<le> c" "c \<le> 6" "1 \<le> t" "t \<le> 6" "current_mode_press_count s = c"
  shows "current_mode_press_count (press_loop (nat (presses_needed c t)) s) = t"
proof (cases "presses_needed c t = 0")
  case True
  with assms have "t = c" by (simp add: presses_needed_def split: if_splits)
  with True assms show ?thesis by simp
next
  case False
  with assms have pos: "0 < presses_needed c t"
    by (simp add: presses_needed_def split: if_splits)
  have "(c + presses_needed c t - 1) mod 6 + 1 = t"
  proof (cases "c = 0")
    case True
    then show ?thesis using assms mod6_id [of t] by (simp add: presses_needed_def)
  next
    case c0: False
    show ?thesis
    proof (cases "t > c")
      case True
      then show ?thesis using c0 assms mod6_id [of t] by (simp add: presses_needed_def)
    next
      case False
      with pos c0 have "c + presses_needed c t - 1 = t + 5"
        by (simp add: presses_needed_def split: if_splits)
      moreover have "(t + 5) mod 6 + 1 = t"
        using assms by (intro mod6_wrap)
      ultimately show ?thesis by (simp only:)
    qed
  qed
  then show ?thesis using press_loop_count_pos [OF pos, of s] assms by simp
qed

section \<open>\<open>press_mode_switch\<close> and \<open>set_mode\<close>\<close>

lemma PRESS_COUNT_TO_MODE_Some_iff:
  "PRESS_COUNT_TO_MODE k = Some m \<longleftrightarrow> k = MODE_PRESS_COUNT m"
  by (cases m) (auto simp: PRESS_COUNT_TO_MODE_eq split: if_splits)

lemma PRESS_COUNT_TO_MODE_None_iff:
  "PRESS_COUNT_TO_MODE k = None \<longleftrightarrow> \<not> (1 \<le> k \<and> k \<le> 6)"
  by (auto simp: PRESS_COUNT_TO_MODE_eq split: if_splits)

lemma press_mode_switch_at:
  assumes "current_mode_press_count (press_loop (nat count) s) = MODE_PRESS_COUNT m"
  shows "press_mode_switch e count s =
           (Inr [(''action'', PyStr ''mode_switch_pressed''),
                 (''press_count'', PyInt count),
                 (''total_mode_presses'', PyInt (MODE_PRESS_COUNT m)),
                 (''current_mode'', PyStr (LightMode_value m)),
                 (''gpio_pin'', PyInt PIN_SW4_MODE),
                 (''timestamp'', PyFloat (time_time e))],
            (press_loop (nat count) s)
              \<lparr>disk := snd (save_state e (MODE_PRESS_COUNT m)
                              (map_option LightColor_value (last_color_pressed s)) (disk s))\<rparr>)"
  using assms
  by (simp add: press_mode_switch_def Let_def PRESS_COUNT_TO_MODE_MODE_PRESS_COUNT
      press_loop_last_color press_loop_disk)

lemma press_mode_switch_pos:
  assumes "0 < count"
  shows "\<exists>m. current_mode_press_count (press_loop (nat count) s) = MODE_PRESS_COUNT m"
proof -
  from press_loop_range [OF assms, of s]
  have "PRESS_COUNT_TO_MODE (current_mode_press_count (press_loop (nat count) s)) \<noteq> None"
    by (simp add: PRESS_COUNT_TO_MODE_None_iff)
  then show ?thesis by (auto simp: PRESS_COUNT_TO_MODE_Some_iff)
qed

lemma set_mode_press:
  assumes "0 \<le> current_mode_press_count s" "current_mode_press_count s \<le> 6"
    and "0 < presses_needed (current_mode_press_count s) (MODE_PRESS_COUNT m)"
  shows "set_mode e m s =
           (Inr [(''action'', PyStr ''mode_switch_pressed''),
                 (''press_count'',
                    PyInt (presses_needed (current_mode_press_count s) (MODE_PRESS_COUNT m))),
                 (''total_mode_presses'', PyInt (MODE_PRESS_COUNT m)),
                 (''current_mode'', PyStr (LightMode_value m)),
                 (''gpio_pin'', PyInt PIN_SW4_MODE),
                 (''timestamp'', PyFloat (time_time e))],
            (press_loop (nat (presses_needed (current_mode_press_count s) (MODE_PRESS_COUNT m))) s)
              \<lparr>disk := snd (save_state e (MODE_PRESS_COUNT m)
                              (map_option LightColor_value (last_color_pressed s)) (disk s))\<rparr>)"
proof -
  have "current_mode_press_count
          (press_loop (nat (presses_needed (current_mode_press_count s) (MODE_PRESS_COUNT m))) s)
        = MODE_PRESS_COUNT m"
    using assms(1,2) MODE_PRESS_COUNT_range [of m]
    by (intro presses_needed_lands) simp_all
  from press_mode_switch_at [OF this, of e] assms(3) show ?thesis
    by (simp add: set_mode_def Let_def)
qed

lemma set_mode_already:
  assumes "\<not> 0 < presses_needed (current_mode_press_count s) (MODE_PRESS_COUNT m)"
  shows "set_mode e m s =
           (Inr [(''action'', PyStr ''mode_already_set''),
                 (''current_mode'', PyStr (LightMode_value m)),
                 (''total_mode_presses'', PyInt (current_mode_press_count s)),
                 (''timestamp'', PyFloat (time_time e))], s)"
  using assms by (simp add: set_mode_def Let_def)

lemma presses_needed_zero_iff:
  assumes "0 \<le> c" "c \<le> 6" "1 \<le> t" "t \<le> 6"
  shows "\<not> 0 < presses_needed c t \<longleftrightarrow> t = c"
  using assms by (auto simp: presses_needed_def)

lemma set_mode_lands:
  assumes "0 \<le> current_mode_press_count s" "current_mode_press_count s \<le> 6"
  shows "current_mode_press_count (snd (set_mode e m s)) = MODE_PRESS_COUNT m"
proof (cases "0 < presses_needed (current_mode_press_count s) (MODE_PRESS_COUNT m)")
  case True
  have "current_mode_press_count
          (press_loop (nat (presses_needed (current_mode_press_count s) (MODE_PRESS_COUNT m))) s)
        = MODE_PRESS_COUNT m"
    using assms MODE_PRESS_COUNT_range [of m]
    by (intro presses_needed_lands) simp_all
  then show ?thesis
    using set_mode_press [OF assms True, of e] by simp
next
  case False
  then have "MODE_PRESS_COUNT m = current_mode_press_count s"
    using presses_needed_zero_iff [of "current_mode_press_count s" "MODE_PRESS_COUNT m"]
      assms MODE_PRESS_COUNT_range [of m] by simp
  then show ?thesis
    using set_mode_already [OF False, of e] by simp
qed

lemma set_mode_succeeds: "\<exists>r. fst (set_mode e m s) = Inr r"
proof (cases "0 < presses_needed (current_mode_press_count s) (MODE_PRESS_COUNT m)")
  case True
  from press_mode_switch_pos [OF True, of s] obtain m' where
    "current_mode_press_count
       (press_loop (nat (presses_needed (current_mode_press_count s) (MODE_PRESS_COUNT m))) s)
     = MODE_PRESS_COUNT m'" ..
  from press_mode_switch_at [OF this, of e] True show ?thesis
    by (simp add: set_mode_def Let_def)
next
  case False
  then show ?thesis using set_mode_already [OF False, of e] by simp
qed


section \<open>The state store\<close>

lemma save_state_failed:
  assumes "save_io e \<noteq> SaveOk"
  shows "\<not> fst (save_state e p c fs)"
    and "state_file (snd (save_state e p c fs)) = state_file fs"
  using assms by (cases "save_io e"; simp add: save_state_def)+

lemma save_state_ok:
  assumes "save_io e = SaveOk"
  shows "save_state e p c fs =
           (True, fs\<lparr>temp_file := None,
                     state_file := Some (Json (PyDict
                       [(''current_mode_press_count'', PyInt p),
                        (''last_color_pressed'', opt_str c),
                        (''last_updated'', PyStr (now_isoformat e))]))\<rparr>)"
  using assms by (simp add: save_state_def)

lemma save_state_True_iff: "fst (save_state e p c fs) \<longleftrightarrow> save_io e = SaveOk"
  by (cases "save_io e") (simp_all add: save_state_def)

lemma load_state_saved:
  assumes "0 \<le> p" "p \<le> 6"
  shows "load_state (fs\<lparr>state_file := Some (Json (PyDict
                       [(''current_mode_press_count'', PyInt p),
                        (''last_color_pressed'', v),
                        (''last_updated'', u)]))\<rparr>)
         = [(''current_mode_press_count'', PyInt p), (''last_color_pressed'', v)]"
  using assms by (simp add: load_state_def load_state_try_def)


lemma load_state_absent: "state_file fs = None \<Longrightarrow> load_state fs = default_state"
  by (simp add: load_state_def)

lemma load_state_unreadable:
  "state_file fs = Some Unreadable \<or> state_file fs = Some NotJson \<Longrightarrow> load_state fs = default_state"
  by (auto simp: load_state_def load_state_try_def)

lemma load_state_not_dict:
  assumes "state_file fs = Some (Json v)" "\<forall>d. v \<noteq> PyDict d"
  shows "load_state fs = default_state"
  using assms
  by (cases v) (auto simp: load_state_def load_state_try_def split: sum.splits bool.splits)

lemma load_state_missing_field:
  assumes "state_file fs = Some (Json (PyDict d))" "map_of d ''current_mode_press_count'' = None"
  shows "load_state fs = default_state"
  using assms by (simp add: load_state_def load_state_try_def)

lemma load_state_bad_count:
  assumes "state_file fs = Some (Json (PyDict d))"
    and "map_of d ''current_mode_press_count'' = Some v"
    and "as_int_instance v = None \<or> (\<exists>n. as_int_instance v = Some n \<and> (n < 0 \<or> 6 < n))"
  shows "load_state fs = default_state"
  using assms by (auto simp: load_state_def load_state_try_def)

lemma load_state_good_count:
  assumes "state_file fs = Some (Json (PyDict d))"
    and "map_of d ''current_mode_press_count'' = Some v"
    and "as_int_instance v = Some n" "0 \<le> n" "n \<le> 6"
  shows "load_state fs =
           [(''current_mode_press_count'', v),
            (''last_color_pressed'',
               case map_of d ''last_color_pressed'' of None \<Rightarrow> PyNone | Some c \<Rightarrow> c)]"
  using assms by (auto simp: load_state_def load_state_try_def split: option.splits)


section \<open>Claims about the press-sequencing engine\<close>

text \<open>
  C1. For every current position in 1..6 and every target mode (its press count is in
  1..6 by \<open>MODE_PRESS_COUNT_range\<close>), the number of presses computed by the four branches of
  \<open>set_mode\<close> lies in 0..5, and running the press loop that many times from the current
  position ends at the target's press count.
\<close>

theorem C1_presses_needed_in_range_and_lands:
  assumes "1 \<le> c" "c \<le> 6" "current_mode_press_count s = c"
  shows "0 \<le> presses_needed c (MODE_PRESS_COUNT m)
         \<and> presses_needed c (MODE_PRESS_COUNT m) \<le> 5
         \<and> current_mode_press_count
              (press_loop (nat (presses_needed c (MODE_PRESS_COUNT m))) s) = MODE_PRESS_COUNT m"
  using assms MODE_PRESS_COUNT_range [of m] presses_needed_bounds [of c "MODE_PRESS_COUNT m"]
    presses_needed_lands [of c "MODE_PRESS_COUNT m" s]
  by simp

theorem C1_witness:
  "1 \<le> (5::int) \<and> (5::int) \<le> 6
   \<and> current_mode_press_count (controller_at 5) = 5
   \<and> presses_needed 5 (MODE_PRESS_COUNT COLOR_DURATION) = 3
   \<and> current_mode_press_count
        (press_loop (nat (presses_needed 5 (MODE_PRESS_COUNT COLOR_DURATION))) (controller_at 5))
        = MODE_PRESS_COUNT COLOR_DURATION"
  using C1_presses_needed_in_range_and_lands [of 5 "controller_at 5" COLOR_DURATION]
  by (simp add: controller_at_def presses_needed_def)

text \<open>
  C2. One iteration of the loop of \<open>press_mode_switch\<close> pulses the mode pin and replaces the
  position \<open>p\<close> by \<open>p mod 6 + 1\<close>, so 0 and 6 both advance to 1. From position 3,
  \<open>press_mode_switch\<close> with count 4 passes through 4, 5, 6 and ends at 1, and the returned
  record has \<open>total_mode_presses = 1\<close>.
\<close>

theorem C2_press_mode_cyclic_advance:
  "press_once s = s\<lparr>pulses := pulses s @ [PIN_SW4_MODE],
                     current_mode_press_count := current_mode_press_count s mod 6 + 1\<rparr>
   \<and> current_mode_press_count (press_once (s\<lparr>current_mode_press_count := 0\<rparr>)) = 1
   \<and> current_mode_press_count (press_once (s\<lparr>current_mode_press_count := 6\<rparr>)) = 1
   \<and> map (\<lambda>k. current_mode_press_count (press_loop k (s\<lparr>current_mode_press_count := 3\<rparr>)))
         [0, 1, 2, 3, 4] = [3, 4, 5, 6, 1]
   \<and> press_mode_switch e 4 (s\<lparr>current_mode_press_count := 3\<rparr>) =
         (Inr [(''action'', PyStr ''mode_switch_pressed''),
               (''press_count'', PyInt 4),
               (''total_mode_presses'', PyInt 1),
               (''current_mode'', PyStr ''breathe_colors''),
               (''gpio_pin'', PyInt 22),
               (''timestamp'', PyFloat (time_time e))],
          s\<lparr>current_mode_press_count := 1,
            pulses := pulses s @ [22, 22, 22, 22],
            disk := snd (save_state e 1 (map_option LightColor_value (last_color_pressed s))
                           (disk s))\<rparr>)"
proof -
  let ?s3 = "s\<lparr>current_mode_press_count := 3\<rparr>"
  have once: "press_once s = s\<lparr>pulses := pulses s @ [PIN_SW4_MODE],
                     current_mode_press_count := current_mode_press_count s mod 6 + 1\<rparr>"
    by (simp add: press_once_def simulate_button_press_def)
  have zero: "current_mode_press_count (press_once (s\<lparr>current_mode_press_count := 0\<rparr>)) = 1"
    and six: "current_mode_press_count (press_once (s\<lparr>current_mode_press_count := 6\<rparr>)) = 1"
    by (simp_all add: press_once_count)
  have loop4: "press_loop 4 ?s3 =
      s\<lparr>current_mode_press_count := 1, pulses := pulses s @ [22, 22, 22, 22]\<rparr>"
    by (simp add: eval_nat_numeral press_once_def simulate_button_press_def PIN_SW4_MODE_def)
  have trace: "map (\<lambda>k. current_mode_press_count (press_loop k ?s3)) [0, 1, 2, 3, 4]
                 = [3, 4, 5, 6, 1]"
    by (simp add: eval_nat_numeral press_once_count)
  have "current_mode_press_count (press_loop (nat 4) ?s3) = MODE_PRESS_COUNT BREATHE_COLORS"
    by (simp add: loop4)
  from press_mode_switch_at [OF this, of e]
  have call: "press_mode_switch e 4 ?s3 =
         (Inr [(''action'', PyStr ''mode_switch_pressed''),
               (''press_count'', PyInt 4),
               (''total_mode_presses'', PyInt 1),
               (''current_mode'', PyStr ''breathe_colors''),
               (''gpio_pin'', PyInt 22),
               (''timestamp'', PyFloat (time_time e))],
          s\<lparr>current_mode_press_count := 1,
            pulses := pulses s @ [22, 22, 22, 22],
            disk := snd (save_state e 1 (map_option LightColor_value (last_color_pressed s))
                           (disk s))\<rparr>)"
    by (simp add: loop4 PIN_SW4_MODE_def)
  from once zero six trace call show ?thesis by (simp only: simp_thms)
qed

theorem C2_witness:
  "press_mode_switch ok_env 4 (controller_at 3) =
     (Inr [(''action'', PyStr ''mode_switch_pressed''),
           (''press_count'', PyInt 4),
           (''total_mode_presses'', PyInt 1),
           (''current_mode'', PyStr ''breathe_colors''),
           (''gpio_pin'', PyInt 22),
           (''timestamp'', PyFloat 0)],
      \<lparr>current_mode_press_count = 1, last_color_pressed = None,
       disk = \<lparr>state_file = Some (Json (PyDict
                 [(''current_mode_press_count'', PyInt 1),
                  (''last_color_pressed'', PyNone),
                  (''last_updated'', PyStr ''2024-01-01T00:00:00'')])),
               temp_file = None\<rparr>,
       pulses = [22, 22, 22, 22]\<rparr>)"
  using C2_press_mode_cyclic_advance [of "controller_at 3" ok_env]
  by (simp add: controller_at_def ok_env_def idle_disk_def save_state_def opt_str_def)

text \<open>
  C3. When the position is 0 (no mode set yet), \<open>set_mode\<close> computes as many presses as the
  target's press count, for each of the six modes, presses the mode switch that many times and
  ends at the position equal to that press count.
\<close>

theorem C3_set_mode_from_zero:
  assumes "current_mode_press_count s = 0"
  shows "presses_needed (current_mode_press_count s) (MODE_PRESS_COUNT m) = MODE_PRESS_COUNT m
         \<and> set_mode e m s =
             (Inr [(''action'', PyStr ''mode_switch_pressed''),
                   (''press_count'', PyInt (MODE_PRESS_COUNT m)),
                   (''total_mode_presses'', PyInt (MODE_PRESS_COUNT m)),
                   (''current_mode'', PyStr (LightMode_value m)),
                   (''gpio_pin'', PyInt PIN_SW4_MODE),
                   (''timestamp'', PyFloat (time_time e))],
              (press_loop (nat (MODE_PRESS_COUNT m)) s)
                \<lparr>disk := snd (save_state e (MODE_PRESS_COUNT m)
                                (map_option LightColor_value (last_color_pressed s)) (disk s))\<rparr>)
         \<and> current_mode_press_count (snd (set_mode e m s)) = MODE_PRESS_COUNT m
         \<and> pulses (snd (set_mode e m s))
             = pulses s @ replicate (nat (MODE_PRESS_COUNT m)) PIN_SW4_MODE"
proof -
  have n: "presses_needed (current_mode_press_count s) (MODE_PRESS_COUNT m) = MODE_PRESS_COUNT m"
    using assms by (simp add: presses_needed_def)
  have pos: "0 < presses_needed (current_mode_press_count s) (MODE_PRESS_COUNT m)"
    using n MODE_PRESS_COUNT_range [of m] by simp
  have call: "set_mode e m s =
             (Inr [(''action'', PyStr ''mode_switch_pressed''),
                   (''press_count'', PyInt (MODE_PRESS_COUNT m)),
                   (''total_mode_presses'', PyInt (MODE_PRESS_COUNT m)),
                   (''current_mode'', PyStr (LightMode_value m)),
                   (''gpio_pin'', PyInt PIN_SW4_MODE),
                   (''timestamp'', PyFloat (time_time e))],
              (press_loop (nat (MODE_PRESS_COUNT m)) s)
                \<lparr>disk := snd (save_state e (MODE_PRESS_COUNT m)
                                (map_option LightColor_value (last_color_pressed s)) (disk s))\<rparr>)"
    using set_mode_press [of s m e] pos assms unfolding n by simp
  have lands: "current_mode_press_count (snd (set_mode e m s)) = MODE_PRESS_COUNT m"
    using set_mode_lands [of s e m] assms by simp
  have pls: "pulses (snd (set_mode e m s))
             = pulses s @ replicate (nat (MODE_PRESS_COUNT m)) PIN_SW4_MODE"
    by (simp add: call press_loop_pulses)
  from n call lands pls show ?thesis by (simp only: simp_thms)
qed

theorem C3_witness:
  "current_mode_press_count (controller_at 0) = 0
   \<and> presses_needed 0 (MODE_PRESS_COUNT WHITE_MODE) = 5
   \<and> current_mode_press_count (snd (set_mode ok_env WHITE_MODE (controller_at 0))) = 5
   \<and> pulses (snd (set_mode ok_env WHITE_MODE (controller_at 0))) = [22, 22, 22, 22, 22]"
  using C3_set_mode_from_zero [of "controller_at 0" WHITE_MODE ok_env]
  by (simp add: controller_at_def PIN_SW4_MODE_def eval_nat_numeral presses_needed_def
      press_once_def simulate_button_press_def)

text \<open>
  C4. From every state with position in 0..6 and for every mode \<open>m\<close>, \<open>set_mode m\<close> returns
  normally, and a second \<open>set_mode m\<close> right after it computes 0 presses, pulses nothing,
  leaves the whole state (position included) as it is and returns the record
  \<open>mode_already_set\<close> with \<open>current_mode = m\<close> and \<open>total_mode_presses\<close> the current position.
\<close>

theorem C4_set_mode_idempotent:
  assumes "0 \<le> current_mode_press_count s" "current_mode_press_count s \<le> 6"
  shows "(\<exists>r. fst (set_mode e1 m s) = Inr r)
         \<and> presses_needed (current_mode_press_count (snd (set_mode e1 m s))) (MODE_PRESS_COUNT m) = 0
         \<and> set_mode e2 m (snd (set_mode e1 m s)) =
             (Inr [(''action'', PyStr ''mode_already_set''),
                   (''current_mode'', PyStr (LightMode_value m)),
                   (''total_mode_presses'',
                      PyInt (current_mode_press_count (snd (set_mode e1 m s)))),
                   (''timestamp'', PyFloat (time_time e2))],
              snd (set_mode e1 m s))
         \<and> pulses (snd (set_mode e2 m (snd (set_mode e1 m s)))) = pulses (snd (set_mode e1 m s))
         \<and> current_mode_press_count (snd (set_mode e2 m (snd (set_mode e1 m s))))
             = current_mode_press_count (snd (set_mode e1 m s))"
proof -
  let ?s1 = "snd (set_mode e1 m s)"
  have at: "current_mode_press_count ?s1 = MODE_PRESS_COUNT m"
    using assms by (rule set_mode_lands)
  have zero: "presses_needed (current_mode_press_count ?s1) (MODE_PRESS_COUNT m) = 0"
    unfolding at using MODE_PRESS_COUNT_range [of m] by (simp add: presses_needed_def)
  then have "\<not> 0 < presses_needed (current_mode_press_count ?s1) (MODE_PRESS_COUNT m)"
    by simp
  from set_mode_already [OF this, of e2]
  have second: "set_mode e2 m ?s1 =
             (Inr [(''action'', PyStr ''mode_already_set''),
                   (''current_mode'', PyStr (LightMode_value m)),
                   (''total_mode_presses'', PyInt (current_mode_press_count ?s1)),
                   (''timestamp'', PyFloat (time_time e2))], ?s1)" .
  have same: "pulses (snd (set_mode e2 m ?s1)) = pulses ?s1"
    "current_mode_press_count (snd (set_mode e2 m ?s1)) = current_mode_press_count ?s1"
    by (simp_all add: second)
  from set_mode_succeeds [of e1 m s] zero second same show ?thesis
    by (simp only: simp_thms)
qed

theorem C4_witness:
  "0 \<le> current_mode_press_count (controller_at 5)
   \<and> current_mode_press_count (controller_at 5) \<le> 6
   \<and> current_mode_press_count (snd (set_mode ok_env COLOR_DURATION (controller_at 5))) = 2
   \<and> fst (set_mode ok_env COLOR_DURATION (snd (set_mode ok_env COLOR_DURATION (controller_at 5))))
       = Inr [(''action'', PyStr ''mode_already_set''),
              (''current_mode'', PyStr ''color_duration''),
              (''total_mode_presses'', PyInt 2),
              (''timestamp'', PyFloat 0)]
   \<and> pulses (snd (set_mode ok_env COLOR_DURATION
                 (snd (set_mode ok_env COLOR_DURATION (controller_at 5)))))
       = [22, 22, 22]"
proof -
  have s1: "snd (set_mode ok_env COLOR_DURATION (controller_at 5)) =
      \<lparr>current_mode_press_count = 2, last_color_pressed = None,
       disk = \<lparr>state_file = Some (Json (PyDict
                 [(''current_mode_press_count'', PyInt 2),
                  (''last_color_pressed'', PyNone),
                  (''last_updated'', PyStr ''2024-01-01T00:00:00'')])),
               temp_file = None\<rparr>,
       pulses = [22, 22, 22]\<rparr>"
    by (simp add: set_mode_def presses_needed_def press_mode_switch_def Let_def
        controller_at_def ok_env_def idle_disk_def save_state_def opt_str_def
        eval_nat_numeral press_once_def simulate_button_press_def PIN_SW4_MODE_def
        PRESS_COUNT_TO_MODE_eq)
  have h: "0 \<le> current_mode_press_count (controller_at 5)"
    "current_mode_press_count (controller_at 5) \<le> 6"
    by (simp_all add: controller_at_def)
  note inst = C4_set_mode_idempotent [OF h, of ok_env COLOR_DURATION ok_env]
  from inst [unfolded s1] h show ?thesis
    unfolding s1 by (simp add: ok_env_def)
qed

text \<open>
  C10. \<open>PRESS_COUNT_TO_MODE\<close> has exactly the keys 1..6. For every count of at least 1 and
  every starting position in 0..6, the position after the press loop lies in 1..6, so the
  lookup succeeds and \<open>press_mode_switch\<close> returns a record. From a position in 0..6 the
  lookup fails exactly when no press is made (count below 1) at position 0, as with count 0.
\<close>

theorem C10_press_mode_lookup_succeeds:
  assumes "0 \<le> current_mode_press_count s" "current_mode_press_count s \<le> 6"
  shows "dom PRESS_COUNT_TO_MODE = {1..6}
         \<and> (1 \<le> count \<longrightarrow>
               1 \<le> current_mode_press_count (press_loop (nat count) s)
               \<and> current_mode_press_count (press_loop (nat count) s) \<le> 6
               \<and> current_mode_press_count (press_loop (nat count) s) \<in> dom PRESS_COUNT_TO_MODE
               \<and> (\<exists>r. fst (press_mode_switch e count s) = Inr r))
         \<and> ((\<exists>err. fst (press_mode_switch e count s) = Inl err)
               \<longleftrightarrow> count < 1 \<and> current_mode_press_count s = 0)
         \<and> press_mode_switch e 0 (s\<lparr>current_mode_press_count := 0\<rparr>)
               = (Inl KeyError, s\<lparr>current_mode_press_count := 0\<rparr>)"
proof -
  have ok: "1 \<le> current_mode_press_count (press_loop (nat count) s)
            \<and> current_mode_press_count (press_loop (nat count) s) \<le> 6
            \<and> current_mode_press_count (press_loop (nat count) s) \<in> dom PRESS_COUNT_TO_MODE
            \<and> (\<exists>r. fst (press_mode_switch e count s) = Inr r)" if c: "1 \<le> count"
  proof -
    from c have pos: "0 < count" by simp
    from press_mode_switch_pos [OF pos, of s] obtain m where
      m: "current_mode_press_count (press_loop (nat count) s) = MODE_PRESS_COUNT m" ..
    from press_mode_switch_at [OF m, of e] have "\<exists>r. fst (press_mode_switch e count s) = Inr r"
      by simp
    with press_loop_range [OF pos, of s] show ?thesis
      by (simp add: dom_PRESS_COUNT_TO_MODE)
  qed
  have fail: "(\<exists>err. fst (press_mode_switch e count s) = Inl err)
               \<longleftrightarrow> count < 1 \<and> current_mode_press_count s = 0"
  proof (cases "1 \<le> count")
    case True
    with ok show ?thesis by auto
  next
    case False
    then have "press_loop (nat count) s = s" by simp
    then show ?thesis using False assms
      by (auto simp: press_mode_switch_def Let_def PRESS_COUNT_TO_MODE_eq split: option.splits)
  qed
  have zero: "press_mode_switch e 0 (s\<lparr>current_mode_press_count := 0\<rparr>)
               = (Inl KeyError, s\<lparr>current_mode_press_count := 0\<rparr>)"
    by (simp add: press_mode_switch_def PRESS_COUNT_TO_MODE_eq)
  from ok fail zero dom_PRESS_COUNT_TO_MODE show ?thesis by blast
qed

theorem C10_witness:
  "0 \<le> current_mode_press_count (controller_at 6)
   \<and> current_mode_press_count (controller_at 6) \<le> 6
   \<and> (1::int) \<le> 2
   \<and> current_mode_press_count (press_loop (nat 2) (controller_at 6)) = 2
   \<and> PRESS_COUNT_TO_MODE 2 = Some COLOR_DURATION
   \<and> (\<exists>r. fst (press_mode_switch ok_env 2 (controller_at 6)) = Inr r)
   \<and> fst (press_mode_switch ok_env 0 (controller_at 0)) = Inl KeyError"
proof -
  have h: "0 \<le> current_mode_press_count (controller_at 6)"
    "current_mode_press_count (controller_at 6) \<le> 6"
    by (simp_all add: controller_at_def)
  have two: "current_mode_press_count (press_loop (nat 2) (controller_at 6)) = 2"
    by (simp add: eval_nat_numeral press_once_count controller_at_def)
  have zero: "fst (press_mode_switch ok_env 0 (controller_at 0)) = Inl KeyError"
    by (simp add: press_mode_switch_def PRESS_COUNT_TO_MODE_eq controller_at_def)
  from C10_press_mode_lookup_succeeds [OF h, of 2 ok_env] h two zero show ?thesis
    by (simp add: PRESS_COUNT_TO_MODE_eq)
qed

text \<open>
  C7. For each of the three colours and every prior state, \<open>press_color_switch\<close> pulses the
  pin bound to the colour (17, 18, 27), sets \<open>last_color_pressed\<close> to the colour, resets the
  position to 0 whatever it was, calls \<open>save_state\<close> with position 0 and the colour's string
  (so the state file holds them when the write succeeds) and returns the record
  \<open>color_switch_pressed\<close> with the colour and its pin.
\<close>

theorem C7_press_color_switch:
  "press_color_switch e color s =
     ([(''action'', PyStr ''color_switch_pressed''),
       (''color'', PyStr (LightColor_value color)),
       (''gpio_pin'', PyInt (pin_map color)),
       (''timestamp'', PyFloat (time_time e))],
      s\<lparr>pulses := pulses s @ [pin_map color],
        last_color_pressed := Some color,
        current_mode_press_count := 0,
        disk := snd (save_state e 0 (Some (LightColor_value color)) (disk s))\<rparr>)
   \<and> current_mode_press_count (snd (press_color_switch e color s)) = 0
   \<and> last_color_pressed (snd (press_color_switch e color s)) = Some color
   \<and> map pin_map [RED, GREEN, YELLOW] = [17, 18, 27]
   \<and> (save_io e = SaveOk \<longrightarrow>
        state_file (disk (snd (press_color_switch e color s))) =
          Some (Json (PyDict [(''current_mode_press_count'', PyInt 0),
                              (''last_color_pressed'', PyStr (LightColor_value color)),
                              (''last_updated'', PyStr (now_isoformat e))]))
        \<and> load_state (disk (snd (press_color_switch e color s))) =
            [(''current_mode_press_count'', PyInt 0),
             (''last_color_pressed'', PyStr (LightColor_value color))])"
proof -
  have call: "press_color_switch e color s =
     ([(''action'', PyStr ''color_switch_pressed''),
       (''color'', PyStr (LightColor_value color)),
       (''gpio_pin'', PyInt (pin_map color)),
       (''timestamp'', PyFloat (time_time e))],
      s\<lparr>pulses := pulses s @ [pin_map color],
        last_color_pressed := Some color,
        current_mode_press_count := 0,
        disk := snd (save_state e 0 (Some (LightColor_value color)) (disk s))\<rparr>)"
    by (simp add: press_color_switch_def Let_def simulate_button_press_def)
  have mem: "current_mode_press_count (snd (press_color_switch e color s)) = 0"
    "last_color_pressed (snd (press_color_switch e color s)) = Some color"
    by (simp_all add: call)
  have pins: "map pin_map [RED, GREEN, YELLOW] = [17, 18, 27]"
    by (simp add: PIN_SW1_RED_def PIN_SW2_GREEN_def PIN_SW3_YELLOW_def)
  have saved: "state_file (disk (snd (press_color_switch e color s))) =
          Some (Json (PyDict [(''current_mode_press_count'', PyInt 0),
                              (''last_color_pressed'', PyStr (LightColor_value color)),
                              (''last_updated'', PyStr (now_isoformat e))]))
        \<and> load_state (disk (snd (press_color_switch e color s))) =
            [(''current_mode_press_count'', PyInt 0),
             (''last_color_pressed'', PyStr (LightColor_value color))]"
    if ok: "save_io e = SaveOk"
    using load_state_saved [where p = 0 and fs = "disk s\<lparr>temp_file := None\<rparr>"
        and v = "PyStr (LightColor_value color)" and u = "PyStr (now_isoformat e)"]
    by (simp add: call save_state_ok [OF ok] opt_str_def)
  from call mem pins saved show ?thesis by blast
qed

theorem C7_witness:
  "save_io ok_env = SaveOk
   \<and> press_color_switch ok_env RED (controller_at 5) =
       ([(''action'', PyStr ''color_switch_pressed''),
         (''color'', PyStr ''red''),
         (''gpio_pin'', PyInt 17),
         (''timestamp'', PyFloat 0)],
        \<lparr>current_mode_press_count = 0, last_color_pressed = Some RED,
         disk = \<lparr>state_file = Some (Json (PyDict
                   [(''current_mode_press_count'', PyInt 0),
                    (''last_color_pressed'', PyStr ''red''),
                    (''last_updated'', PyStr ''2024-01-01T00:00:00'')])),
                 temp_file = None\<rparr>,
         pulses = [17]\<rparr>)
   \<and> load_state (disk (snd (press_color_switch ok_env RED (controller_at 5)))) =
       [(''current_mode_press_count'', PyInt 0), (''last_color_pressed'', PyStr ''red'')]"
  using C7_press_color_switch [of ok_env RED "controller_at 5"]
  by (simp add: ok_env_def controller_at_def idle_disk_def save_state_def opt_str_def
      PIN_SW1_RED_def press_color_switch_def Let_def simulate_button_press_def
      load_state_def load_state_try_def)

text \<open>
  C9. When the write of \<open>save_state\<close> fails at any point (so \<open>save_state\<close> returns \<open>False\<close>) the
  state file is left as it was, and both \<open>press_color_switch\<close> and \<open>press_mode_switch\<close> (count
  at least 1) still move the in-memory position and colour to their values after the press and
  return their usual record, not an error.
\<close>

theorem C9_save_failure_not_fatal:
  assumes "save_io e \<noteq> SaveOk" "1 \<le> count"
  shows "\<not> fst (save_state e p c fs)
         \<and> fst (press_color_switch e color s) =
             [(''action'', PyStr ''color_switch_pressed''),
              (''color'', PyStr (LightColor_value color)),
              (''gpio_pin'', PyInt (pin_map color)),
              (''timestamp'', PyFloat (time_time e))]
         \<and> current_mode_press_count (snd (press_color_switch e color s)) = 0
         \<and> last_color_pressed (snd (press_color_switch e color s)) = Some color
         \<and> state_file (disk (snd (press_color_switch e color s))) = state_file (disk s)
         \<and> (\<exists>m. PRESS_COUNT_TO_MODE ((current_mode_press_count s + count - 1) mod 6 + 1) = Some m
              \<and> fst (press_mode_switch e count s) =
                  Inr [(''action'', PyStr ''mode_switch_pressed''),
                       (''press_count'', PyInt count),
                       (''total_mode_presses'',
                          PyInt ((current_mode_press_count s + count - 1) mod 6 + 1)),
                       (''current_mode'', PyStr (LightMode_value m)),
                       (''gpio_pin'', PyInt PIN_SW4_MODE),
                       (''timestamp'', PyFloat (time_time e))])
         \<and> current_mode_press_count (snd (press_mode_switch e count s))
             = (current_mode_press_count s + count - 1) mod 6 + 1
         \<and> current_mode_press_count (snd (press_mode_switch e count s))
             = current_mode_press_count (press_loop (nat count) s)
         \<and> last_color_pressed (snd (press_mode_switch e count s)) = last_color_pressed s
         \<and> state_file (disk (snd (press_mode_switch e count s))) = state_file (disk s)"
proof -
  from assms(2) have pos: "0 < count" by simp
  note failed = save_state_failed [OF assms(1)]
  have color_call: "press_color_switch e color s =
     ([(''action'', PyStr ''color_switch_pressed''),
       (''color'', PyStr (LightColor_value color)),
       (''gpio_pin'', PyInt (pin_map color)),
       (''timestamp'', PyFloat (time_time e))],
      s\<lparr>pulses := pulses s @ [pin_map color],
        last_color_pressed := Some color,
        current_mode_press_count := 0,
        disk := snd (save_state e 0 (Some (LightColor_value color)) (disk s))\<rparr>)"
    by (simp add: press_color_switch_def Let_def simulate_button_press_def)
  have color: "fst (press_color_switch e color s) =
             [(''action'', PyStr ''color_switch_pressed''),
              (''color'', PyStr (LightColor_value color)),
              (''gpio_pin'', PyInt (pin_map color)),
              (''timestamp'', PyFloat (time_time e))]"
    "current_mode_press_count (snd (press_color_switch e color s)) = 0"
    "last_color_pressed (snd (press_color_switch e color s)) = Some color"
    "state_file (disk (snd (press_color_switch e color s))) = state_file (disk s)"
    by (simp_all add: color_call failed)
  from press_mode_switch_pos [OF pos, of s] obtain m where
    m: "current_mode_press_count (press_loop (nat count) s) = MODE_PRESS_COUNT m" ..
  note at = press_loop_count_pos [OF pos, of s]
  note mode_call = press_mode_switch_at [OF m, of e]
  have lookup: "PRESS_COUNT_TO_MODE ((current_mode_press_count s + count - 1) mod 6 + 1) = Some m"
    using m at by (simp add: PRESS_COUNT_TO_MODE_Some_iff)
  have result: "fst (press_mode_switch e count s) =
                  Inr [(''action'', PyStr ''mode_switch_pressed''),
                       (''press_count'', PyInt count),
                       (''total_mode_presses'',
                          PyInt ((current_mode_press_count s + count - 1) mod 6 + 1)),
                       (''current_mode'', PyStr (LightMode_value m)),
                       (''gpio_pin'', PyInt PIN_SW4_MODE),
                       (''timestamp'', PyFloat (time_time e))]"
    using m at by (simp add: mode_call)
  have mode: "current_mode_press_count (snd (press_mode_switch e count s))
             = (current_mode_press_count s + count - 1) mod 6 + 1"
    "current_mode_press_count (snd (press_mode_switch e count s))
             = current_mode_press_count (press_loop (nat count) s)"
    "last_color_pressed (snd (press_mode_switch e count s)) = last_color_pressed s"
    "state_file (disk (snd (press_mode_switch e count s))) = state_file (disk s)"
    using m at by (simp_all add: mode_call failed press_loop_last_color)
  from failed(1) [of p c fs] color lookup result mode show ?thesis by blast
qed

theorem C9_witness:
  "save_io failing_env \<noteq> SaveOk \<and> (1::int) \<le> 4
   \<and> \<not> fst (save_state failing_env 1 None idle_disk)
   \<and> current_mode_press_count (snd (press_color_switch failing_env RED (controller_at 3))) = 0
   \<and> last_color_pressed (snd (press_color_switch failing_env RED (controller_at 3))) = Some RED
   \<and> fst (press_mode_switch failing_env 4 (controller_at 3)) =
        Inr [(''action'', PyStr ''mode_switch_pressed''),
             (''press_count'', PyInt 4),
             (''total_mode_presses'', PyInt 1),
             (''current_mode'', PyStr ''breathe_colors''),
             (''gpio_pin'', PyInt 22),
             (''timestamp'', PyFloat 0)]
   \<and> current_mode_press_count (snd (press_mode_switch failing_env 4 (controller_at 3))) = 1
   \<and> state_file (disk (snd (press_mode_switch failing_env 4 (controller_at 3)))) = None"
proof -
  have h: "save_io failing_env \<noteq> SaveOk" "(1::int) \<le> 4"
    by (simp_all add: failing_env_def)
  note inst = C9_save_failure_not_fatal [OF h, of 1 None idle_disk RED "controller_at 3"]
  have pos: "current_mode_press_count (controller_at 3) = 3"
    "state_file (disk (controller_at 3)) = None"
    "time_time failing_env = 0"
    by (simp_all add: controller_at_def idle_disk_def failing_env_def)
  from inst h show ?thesis
    unfolding pos by (auto simp: PRESS_COUNT_TO_MODE_eq PIN_SW4_MODE_def)
qed

text \<open>
  C8. From every starting state and in every environment \<open>reset\<close> first runs \<open>set_mode OFF\<close>
  (which never fails), then sets the position to 0 and the colour to \<open>None\<close>, calls
  \<open>clear_state\<close>, and returns the record \<open>system_reset\<close> with \<open>lights_off\<close> and \<open>state_cleared\<close>
  true and \<open>current_mode_press_count\<close> 0. The state file is absent afterwards whenever
  \<open>os.remove\<close> does not fail, and \<open>load_state\<close> then gives the defaults; when \<open>os.remove\<close>
  fails, \<open>clear_state\<close> catches the exception and the file stays as \<open>set_mode OFF\<close> left it.
\<close>

theorem C8_reset:
  "reset e s =
     (Inr [(''action'', PyStr ''system_reset''),
           (''lights_off'', PyBool True),
           (''state_cleared'', PyBool True),
           (''current_mode_press_count'', PyInt 0),
           (''timestamp'', PyFloat (time_time e)),
           (''message'', PyStr reset_message)],
      (snd (set_mode e OFF s))
        \<lparr>current_mode_press_count := 0,
         last_color_pressed := None,
         disk := snd (clear_state e (disk (snd (set_mode e OFF s))))\<rparr>)
   \<and> current_mode_press_count (snd (reset e s)) = 0
   \<and> last_color_pressed (snd (reset e s)) = None
   \<and> pulses (snd (reset e s)) = pulses (snd (set_mode e OFF s))
   \<and> (remove_ok e \<longrightarrow>
         state_file (disk (snd (reset e s))) = None
         \<and> load_state (disk (snd (reset e s))) = default_state)
   \<and> (\<not> remove_ok e \<longrightarrow>
         state_file (disk (snd (reset e s))) = state_file (disk (snd (set_mode e OFF s))))"
proof -
  from set_mode_succeeds [of e OFF s] obtain r where r: "fst (set_mode e OFF s) = Inr r" ..
  then have sm: "set_mode e OFF s = (Inr r, snd (set_mode e OFF s))"
    by (metis prod.collapse)
  have call: "reset e s =
     (Inr [(''action'', PyStr ''system_reset''),
           (''lights_off'', PyBool True),
           (''state_cleared'', PyBool True),
           (''current_mode_press_count'', PyInt 0),
           (''timestamp'', PyFloat (time_time e)),
           (''message'', PyStr reset_message)],
      (snd (set_mode e OFF s))
        \<lparr>current_mode_press_count := 0,
         last_color_pressed := None,
         disk := snd (clear_state e (disk (snd (set_mode e OFF s))))\<rparr>)"
    unfolding reset_def by (subst sm) (simp add: Let_def)
  have mem: "current_mode_press_count (snd (reset e s)) = 0"
    "last_color_pressed (snd (reset e s)) = None"
    "pulses (snd (reset e s)) = pulses (snd (set_mode e OFF s))"
    by (simp_all add: call)
  have gone: "state_file (disk (snd (reset e s))) = None
         \<and> load_state (disk (snd (reset e s))) = default_state" if "remove_ok e"
    using that by (simp add: call clear_state_def load_state_def)
  have kept: "state_file (disk (snd (reset e s))) = state_file (disk (snd (set_mode e OFF s)))"
    if "\<not> remove_ok e"
    using that by (simp add: call clear_state_def)
  from call mem gone kept show ?thesis by blast
qed

theorem C8_witness:
  "remove_ok ok_env
   \<and> fst (reset ok_env (controller_at 4)) =
       Inr [(''action'', PyStr ''system_reset''),
            (''lights_off'', PyBool True),
            (''state_cleared'', PyBool True),
            (''current_mode_press_count'', PyInt 0),
            (''timestamp'', PyFloat 0),
            (''message'', PyStr reset_message)]
   \<and> current_mode_press_count (snd (reset ok_env (controller_at 4))) = 0
   \<and> last_color_pressed (snd (reset ok_env (controller_at 4))) = None
   \<and> state_file (disk (snd (set_mode ok_env OFF (controller_at 4)))) \<noteq> None
   \<and> state_file (disk (snd (reset ok_env (controller_at 4)))) = None
   \<and> \<not> remove_ok failing_env
   \<and> current_mode_press_count (snd (reset failing_env (controller_at 4))) = 0
   \<and> state_file (disk (snd (reset failing_env (controller_at 4))))
       = state_file (disk (snd (set_mode failing_env OFF (controller_at 4))))"
proof -
  have h: "remove_ok ok_env" "time_time ok_env = 0" "\<not> remove_ok failing_env"
    by (simp_all add: ok_env_def failing_env_def)
  have written: "state_file (disk (snd (set_mode ok_env OFF (controller_at 4)))) \<noteq> None"
    using set_mode_press [of "controller_at 4" OFF ok_env]
    by (simp add: controller_at_def presses_needed_def save_state_def ok_env_def)
  from C8_reset [of ok_env "controller_at 4"] C8_reset [of failing_env "controller_at 4"]
    h written
  show ?thesis
    by (simp add: clear_state_def)
qed

section \<open>Claims about the persistent state store\<close>

text \<open>
  C5. For every position \<open>p\<close> in 0..6 and every colour argument \<open>c\<close> (\<open>None\<close> or a string, in
  particular "red", "green" and "yellow"), when \<open>save_state p c\<close> returns \<open>True\<close> the
  \<open>load_state\<close> that follows returns exactly \<open>current_mode_press_count = p\<close> and
  \<open>last_color_pressed = c\<close>.
\<close>

theorem C5_save_load_round_trip:
  assumes "0 \<le> p" "p \<le> 6" "fst (save_state e p c fs)"
  shows "load_state (snd (save_state e p c fs)) =
           [(''current_mode_press_count'', PyInt p), (''last_color_pressed'', opt_str c)]"
proof -
  from assms(3) have ok: "save_io e = SaveOk"
    by (simp add: save_state_True_iff)
  show ?thesis
    using load_state_saved [OF assms(1,2), where fs = "fs\<lparr>temp_file := None\<rparr>"
        and v = "opt_str c" and u = "PyStr (now_isoformat e)"]
    by (simp add: save_state_ok [OF ok])
qed

theorem C5_witness:
  "(0::int) \<le> 6 \<and> (6::int) \<le> 6
   \<and> fst (save_state ok_env 6 (Some ''yellow'') idle_disk)
   \<and> load_state (snd (save_state ok_env 6 (Some ''yellow'') idle_disk)) =
       [(''current_mode_press_count'', PyInt 6), (''last_color_pressed'', PyStr ''yellow'')]
   \<and> load_state (snd (save_state ok_env 0 None idle_disk)) =
       [(''current_mode_press_count'', PyInt 0), (''last_color_pressed'', PyNone)]"
proof -
  have h: "fst (save_state ok_env 6 (Some ''yellow'') idle_disk)"
    "fst (save_state ok_env 0 None idle_disk)"
    by (simp_all add: save_state_def ok_env_def)
  from C5_save_load_round_trip [OF _ _ h(1)] C5_save_load_round_trip [OF _ _ h(2)] h
  show ?thesis by (simp add: opt_str_def)
qed

text \<open>
  C6. \<open>load_state\<close> returns a value for every disk, and the defaults when the file is absent,
  unreadable, not JSON, not a dictionary, without the field \<open>current_mode_press_count\<close>, or
  with a value there that \<open>isinstance(\<dots>, int)\<close> rejects or that lies outside 0..6 (lemmas
  \<open>load_state_absent\<close> to \<open>load_state_bad_count\<close>). But \<open>isinstance(True, int)\<close> holds in
  Python: for the file \<open>{"current_mode_press_count": true}\<close>, whose field is not an integer,
  \<open>load_state\<close> does not return the defaults, it returns \<open>True\<close> as the position.
\<close>

theorem C6_load_state_accepts_boolean:
  "load_state \<lparr>state_file = Some (Json (PyDict [(''current_mode_press_count'', PyBool True)])),
               temp_file = None\<rparr>
     = [(''current_mode_press_count'', PyBool True), (''last_color_pressed'', PyNone)]
   \<and> load_state \<lparr>state_file = Some (Json (PyDict [(''current_mode_press_count'', PyBool True)])),
                 temp_file = None\<rparr>
     \<noteq> default_state
   \<and> load_state \<lparr>state_file = Some (Json (PyDict [(''current_mode_press_count'', PyInt 99)])),
                 temp_file = None\<rparr>
     = default_state"
  by (simp add: load_state_def load_state_try_def default_state_def)

end
